theory Spec2Isabelle
  imports Complex_Main "HOL-Library.AList" "HOL-Library.Multiset"
begin

section \<open>The OpenAQ ETL script (scripts/etl/openaq\_etl.py)\<close>

text \<open>
  The script fetches PM2.5 and NO2 measurements per country from the OpenAQ API, reduces
  them to a trimmed mean and writes the result to a Supabase table with an HTTP PATCH.

  Conventions of the embedding:
  \<^item> Python floats are modelled as \<^typ>\<open>real\<close>: exact arithmetic, no rounding error,
    no overflow, no NaN and no infinity.
  \<^item> Python exceptions are values of \<open>exn\<close>; a call that may raise returns
    \<open>exn + 'a\<close> with \<open>Inl\<close> for the exception. Every exception class below is a
    subclass of Python's \<open>Exception\<close>, so \<open>except Exception\<close> catches each of them.
  \<^item> The outside world (environment variables, the two HTTP services, the clock) is a
    record of functions of the request; what the script does to the world (console
    lines, HTTP requests) is collected in an \<open>io_state\<close> that is passed along.
  \<^item> A leading underscore of a Python name is dropped (\<open>_calculate_average\<close> is
    \<open>calculate_average\<close>).
\<close>

subsection \<open>Exceptions and Python primitives\<close>

datatype exn =
    ValueError string
  | TypeError
  | ZeroDivisionError
  | HTTPError nat
  | RequestException

text \<open>Python's \<open>sorted\<close> on a list of floats: the ascending rearrangement.\<close>

definition py_sorted :: "real list \<Rightarrow> real list" where
  "py_sorted values = sort values"

text \<open>
  A slice bound \<open>i\<close> on a list of length \<open>n\<close>: a negative bound counts from the end,
  and every bound is clamped to \<open>0..n\<close>.
\<close>

definition slice_bound :: "int \<Rightarrow> nat \<Rightarrow> nat" where
  "slice_bound i n = (if i < 0 then nat (max 0 (int n + i)) else min (nat i) n)"

text \<open>\<open>xs[i:j]\<close>\<close>

definition py_slice :: "'a list \<Rightarrow> int \<Rightarrow> int \<Rightarrow> 'a list" where
  "py_slice xs i j =
     (let n = length xs; a = slice_bound i n; b = slice_bound j n
      in drop a (take b xs))"

text \<open>\<open>a / b\<close> with a float \<open>a\<close> and an integer length \<open>b\<close>.\<close>

definition py_truediv :: "real \<Rightarrow> nat \<Rightarrow> exn + real" where
  "py_truediv a b = (if b = 0 then Inl ZeroDivisionError else Inr (a / real b))"

text \<open>
  \<open>round(x, ndigits)\<close>: Python rounds to the nearest multiple of \<open>10 ^ -ndigits\<close>,
  a tie going to the even neighbour.
\<close>

definition round_half_even :: "real \<Rightarrow> int" where
  "round_half_even y =
     (let f = \<lfloor>y\<rfloor>; d = y - of_int f
      in if d < 1 / 2 then f
         else if 1 / 2 < d then f + 1
         else if even f then f else f + 1)"

definition py_round :: "real \<Rightarrow> nat \<Rightarrow> real" where
  "py_round x ndigits = of_int (round_half_even (x * 10 ^ ndigits)) / 10 ^ ndigits"

text \<open>Truthiness of an \<open>Optional[float]\<close>: \<open>None\<close> and \<open>0.0\<close> are false.\<close>

definition truthy :: "real option \<Rightarrow> bool" where
  "truthy v = (case v of None \<Rightarrow> False | Some x \<Rightarrow> x \<noteq> 0)"

subsection \<open>The world and the effects\<close>

text \<open>
  A JSON value under the key \<open>value\<close> of a result object: \<open>null\<close>, a value that
  \<open>float()\<close> converts to the given number, or a value on which \<open>float()\<close> raises.
\<close>

datatype json_value = JNull | JNumber real | JOther

text \<open>
  A result object is represented by its \<open>value\<close> member (\<open>None\<close> when the key is
  absent), the response body by its \<open>results\<close> member (\<open>None\<close> when the key is absent).
\<close>

type_synonym result_obj = "json_value option"
type_synonym json_data = "result_obj list option"

text \<open>A \<open>requests.Response\<close>: \<open>json\<close> is what \<open>response.json()\<close> returns or raises.\<close>

record response =
  status_code :: nat
  text_of :: string
  json :: "exn + json_data"

datatype field_value = Number real | Text string

text \<open>The dict \<open>update_data\<close>, in insertion order.\<close>

type_synonym payload = "(string \<times> field_value) list"

record world =
  getenv :: "string \<Rightarrow> string option"
  http_get :: "string \<Rightarrow> string \<Rightarrow> exn + response"
  http_patch :: "string \<Rightarrow> string \<Rightarrow> payload \<Rightarrow> exn + response"
  utcnow :: string

datatype request =
    GET string string
  | PATCH string string payload

datatype console_line =
    Banner
  | Processing string string
  | Fetched string string real nat
  | Fetch_error string string exn
  | No_data_to_update string
  | Updated string
  | Update_failed string nat string
  | No_data_available string
  | Error_processing string exn
  | Etl_complete nat nat
  | Fatal_error exn

record io_state =
  console :: "console_line list"
  net :: "request list"

definition init_io :: io_state where
  "init_io = \<lparr>console = [], net = []\<rparr>"

definition print :: "console_line \<Rightarrow> io_state \<Rightarrow> io_state" where
  "print l st = st\<lparr>console := console st @ [l]\<rparr>"

definition send :: "request \<Rightarrow> io_state \<Rightarrow> io_state" where
  "send r st = st\<lparr>net := net st @ [r]\<rparr>"

text \<open>\<open>response.raise_for_status()\<close> of the requests library: 4xx and 5xx raise.\<close>

definition raise_for_status :: "response \<Rightarrow> exn + unit" where
  "raise_for_status r =
     (if 400 \<le> status_code r \<and> status_code r < 600
      then Inl (HTTPError (status_code r)) else Inr ())"

subsection \<open>Configuration\<close>

definition COUNTRIES :: "(string \<times> string) list" where
  "COUNTRIES =
    [(''DEU'', ''Germany''), (''POL'', ''Poland''), (''FRA'', ''France''),
     (''ESP'', ''Spain''), (''ITA'', ''Italy''), (''GRC'', ''Greece''),
     (''ROU'', ''Romania''), (''BGR'', ''Bulgaria''), (''GBR'', ''United Kingdom''),
     (''NLD'', ''Netherlands''), (''SWE'', ''Sweden''), (''PRT'', ''Portugal'')]"

record etl =
  supabase_url :: string
  supabase_key :: string

text \<open>\<open>not s\<close> for an \<open>Optional[str]\<close>: \<open>None\<close> and the empty string.\<close>

definition falsy_str :: "string option \<Rightarrow> bool" where
  "falsy_str s = (case s of None \<Rightarrow> True | Some v \<Rightarrow> v = [])"

text \<open>\<open>OpenAQETL.__init__\<close>\<close>

definition OpenAQETL_init :: "world \<Rightarrow> exn + etl" where
  "OpenAQETL_init w =
     (let url = getenv w ''SUPABASE_URL''; key = getenv w ''SUPABASE_SERVICE_KEY''
      in if falsy_str url \<or> falsy_str key
         then Inl (ValueError ''Missing SUPABASE_URL or SUPABASE_SERVICE_KEY environment variables'')
         else Inr \<lparr>supabase_url = the url, supabase_key = the key\<rparr>)"

subsection \<open>The measurement fetcher\<close>

text \<open>The loop of \<open>_fetch_parameter_data\<close> over \<open>data['results']\<close>.\<close>

fun collect_values :: "result_obj list \<Rightarrow> real list \<Rightarrow> exn + real list" where
  "collect_values [] measurements = Inr measurements"
| "collect_values (None # rs) measurements = collect_values rs measurements"
| "collect_values (Some JNull # rs) measurements = collect_values rs measurements"
| "collect_values (Some (JNumber x) # rs) measurements = collect_values rs (measurements @ [x])"
| "collect_values (Some JOther # rs) measurements = Inl TypeError"

definition fetch_parameter_data ::
  "world \<Rightarrow> string \<Rightarrow> string \<Rightarrow> io_state \<Rightarrow> (exn + real list) \<times> io_state" where
  "fetch_parameter_data w country_code parameter st =
     (let st1 = send (GET country_code parameter) st
      in case http_get w country_code parameter of
           Inl e \<Rightarrow> (Inl e, st1)
         | Inr resp \<Rightarrow>
             (case raise_for_status resp of
                Inl e \<Rightarrow> (Inl e, st1)
              | Inr _ \<Rightarrow>
                  (case json resp of
                     Inl e \<Rightarrow> (Inl e, st1)
                   | Inr data \<Rightarrow>
                       (case data of
                          None \<Rightarrow> (Inr [], st1)
                        | Some results \<Rightarrow> (collect_values results [], st1)))))"

subsection \<open>The aggregator\<close>

text \<open>
  \<open>_calculate_average\<close>; \<open>trim_count\<close> and \<open>trimmed\<close> are its local variables of
  these names.
\<close>

definition trim_count :: "real list \<Rightarrow> nat" where
  "trim_count values = max 1 (length (py_sorted values) div 20)"

definition trimmed :: "real list \<Rightarrow> real list" where
  "trimmed values =
     (let sorted_values = py_sorted values
      in if 10 < length sorted_values
         then py_slice sorted_values (int (trim_count values)) (- int (trim_count values))
         else sorted_values)"

definition calculate_average :: "real list \<Rightarrow> exn + real option" where
  "calculate_average values =
     (if values = [] then Inr None
      else if trimmed values \<noteq> []
           then (case py_truediv (sum_list (trimmed values)) (length (trimmed values)) of
                   Inl e \<Rightarrow> Inl e
                 | Inr q \<Rightarrow> Inr (Some q))
           else Inr None)"

subsection \<open>Fetching one country\<close>

record aggregate =
  avg_pm25 :: "real option"
  avg_no2 :: "real option"
  measurement_count :: nat

text \<open>
  One of the two \<open>try\<close> blocks of \<open>fetch_country_air_quality\<close>, for the given parameter;
  it returns the value that \<open>result\<close> holds for the parameter afterwards. The assignment
  to \<open>result\<close> comes before the \<open>print\<close>, whose format \<open>:.2f\<close> raises \<open>TypeError\<close> on
  \<open>None\<close>.
\<close>

definition fetch_average ::
  "world \<Rightarrow> string \<Rightarrow> string \<Rightarrow> io_state \<Rightarrow> real option \<times> io_state" where
  "fetch_average w country_code parameter st =
     (case fetch_parameter_data w country_code parameter st of
        (Inl e, st1) \<Rightarrow> (None, print (Fetch_error country_code parameter e) st1)
      | (Inr data, st1) \<Rightarrow>
          if data \<noteq> [] then
            (case calculate_average data of
               Inl e \<Rightarrow> (None, print (Fetch_error country_code parameter e) st1)
             | Inr None \<Rightarrow> (None, print (Fetch_error country_code parameter TypeError) st1)
             | Inr (Some avg) \<Rightarrow>
                 (Some avg, print (Fetched country_code parameter avg (length data)) st1))
          else (None, st1))"

definition fetch_country_air_quality ::
  "world \<Rightarrow> string \<Rightarrow> io_state \<Rightarrow> aggregate \<times> io_state" where
  "fetch_country_air_quality w country_code st =
     (case fetch_average w country_code ''pm25'' st of
        (pm25, st1) \<Rightarrow>
          (case fetch_average w country_code ''no2'' st1 of
             (no2, st2) \<Rightarrow>
               (\<lparr>avg_pm25 = pm25, avg_no2 = no2, measurement_count = 0\<rparr>, st2)))"

subsection \<open>The updater\<close>

text \<open>The dict \<open>update_data\<close> of \<open>update_supabase\<close> before the timestamp is added.\<close>

definition update_data :: "aggregate \<Rightarrow> payload" where
  "update_data air_quality_data =
     (let d0 = [];
          d1 = (case avg_pm25 air_quality_data of
                  Some x \<Rightarrow> AList.update ''air_quality_pm25'' (Number (py_round x 2)) d0
                | None \<Rightarrow> d0);
          d2 = (case avg_no2 air_quality_data of
                  Some x \<Rightarrow> AList.update ''air_quality_no2'' (Number (py_round x 2)) d1
                | None \<Rightarrow> d1)
      in d2)"

definition update_supabase ::
  "etl \<Rightarrow> world \<Rightarrow> string \<Rightarrow> aggregate \<Rightarrow> io_state \<Rightarrow> (exn + unit) \<times> io_state" where
  "update_supabase self w region_code air_quality_data st =
     (let url = supabase_url self @ ''/rest/v1/climate_inequality_regions'';
          d = update_data air_quality_data
      in if d = [] then (Inr (), print (No_data_to_update region_code) st)
         else
           (let d' = AList.update ''last_updated'' (Text (utcnow w)) d;
                st1 = send (PATCH url region_code d') st
            in case http_patch w url region_code d' of
                 Inl e \<Rightarrow> (Inl e, st1)
               | Inr resp \<Rightarrow>
                   if status_code resp \<in> set [200, 201, 204]
                   then (Inr (), print (Updated region_code) st1)
                   else (Inr (), print (Update_failed region_code (status_code resp) (text_of resp)) st1)))"

subsection \<open>The orchestrator\<close>

record tally =
  successful :: nat
  failed :: nat

text \<open>\<open>COUNTRIES.get(country_code, country_code)\<close>\<close>

definition country_name :: "string \<Rightarrow> string" where
  "country_name country_code =
     (case map_of COUNTRIES country_code of Some n \<Rightarrow> n | None \<Rightarrow> country_code)"

text \<open>
  The body of the \<open>try\<close> in the loop of \<open>run_etl\<close>: \<open>Inr True\<close> when it ends in the
  branch that adds to \<open>successful\<close>, \<open>Inr False\<close> when it ends in the branch that adds to
  \<open>failed\<close>, \<open>Inl e\<close> when \<open>e\<close> is raised in it.
\<close>

definition try_country ::
  "etl \<Rightarrow> world \<Rightarrow> string \<Rightarrow> io_state \<Rightarrow> (exn + bool) \<times> io_state" where
  "try_country self w country_code st =
     (case fetch_country_air_quality w country_code st of
        (air_quality, st1) \<Rightarrow>
          if truthy (avg_pm25 air_quality) \<or> truthy (avg_no2 air_quality) then
            (case update_supabase self w country_code air_quality st1 of
               (Inl e, st2) \<Rightarrow> (Inl e, st2)
             | (Inr _, st2) \<Rightarrow> (Inr True, st2))
          else (Inr False, print (No_data_available country_code) st1))"

text \<open>One iteration of the loop, with its \<open>except Exception\<close> handler.\<close>

definition run_country ::
  "etl \<Rightarrow> world \<Rightarrow> tally \<times> io_state \<Rightarrow> string \<Rightarrow> tally \<times> io_state" where
  "run_country self w s country_code =
     (case s of
        (t, st) \<Rightarrow>
          (case try_country self w country_code
                  (print (Processing country_code (country_name country_code)) st) of
             (Inr ok, st1) \<Rightarrow>
               if ok then (t\<lparr>successful := successful t + 1\<rparr>, st1)
               else (t\<lparr>failed := failed t + 1\<rparr>, st1)
           | (Inl e, st1) \<Rightarrow>
               (t\<lparr>failed := failed t + 1\<rparr>, print (Error_processing country_code e) st1)))"

definition run_etl ::
  "etl \<Rightarrow> world \<Rightarrow> string list option \<Rightarrow> io_state \<Rightarrow> tally \<times> io_state" where
  "run_etl self w countries st =
     (let cs = (case countries of None \<Rightarrow> map fst COUNTRIES | Some l \<Rightarrow> l)
      in case foldl (run_country self w)
                (\<lparr>successful = 0, failed = 0\<rparr>, print Banner st) cs of
           (t, st1) \<Rightarrow> (t, print (Etl_complete (successful t) (failed t)) st1))"

text \<open>
  \<open>main\<close>: the exit code of the process and its effects. \<open>exit(1)\<close> raises
  \<open>SystemExit\<close>, which is no \<open>Exception\<close>; a return from \<open>main\<close> ends the process
  with code 0. No statement of \<open>run_etl\<close> outside its \<open>try\<close> raises, so the handler
  of \<open>main\<close> is entered from the constructor only.
\<close>

definition main :: "world \<Rightarrow> nat \<times> io_state" where
  "main w =
     (case OpenAQETL_init w of
        Inl e \<Rightarrow> (1, print (Fatal_error e) init_io)
      | Inr self \<Rightarrow> (0, snd (run_etl self w None init_io)))"

subsection \<open>Example worlds\<close>

text \<open>Concrete worlds on which the theorems below are evaluated.\<close>

definition ok_response :: "result_obj list \<Rightarrow> response" where
  "ok_response rs = \<lparr>status_code = 200, text_of = [], json = Inr (Some rs)\<rparr>"

definition patch_response :: "nat \<Rightarrow> string \<Rightarrow> response" where
  "patch_response code body = \<lparr>status_code = code, text_of = body, json = Inr None\<rparr>"

definition secrets :: "string \<Rightarrow> string option" where
  "secrets name =
     (if name = ''SUPABASE_URL'' then Some ''https://db.example''
      else if name = ''SUPABASE_SERVICE_KEY'' then Some ''service-key''
      else None)"

definition example_etl :: etl where
  "example_etl = \<lparr>supabase_url = ''https://db.example'', supabase_key = ''service-key''\<rparr>"

text \<open>
  OpenAQ reports one PM2.5 measurement of \<open>0.0\<close> for DEU and no other measurement;
  Supabase answers every PATCH with 204.
\<close>

definition zero_world :: world where
  "zero_world =
     \<lparr>getenv = secrets,
      http_get = (\<lambda>c p. Inr (ok_response
                    (if c = ''DEU'' \<and> p = ''pm25'' then [Some (JNumber 0)] else []))),
      http_patch = (\<lambda>url r d. Inr (patch_response 204 [])),
      utcnow = ''2024-01-01T00:00:00''\<rparr>"

text \<open>
  OpenAQ reports one measurement of \<open>10\<close> for every country and parameter; Supabase
  answers every PATCH with 500.
\<close>

definition rejecting_world :: world where
  "rejecting_world =
     \<lparr>getenv = secrets,
      http_get = (\<lambda>c p. Inr (ok_response [Some (JNumber 10)])),
      http_patch = (\<lambda>url r d. Inr (patch_response 500 ''Internal Server Error'')),
      utcnow = ''2024-01-01T00:00:00''\<rparr>"


text \<open>
  Every request for POL raises; every other country has one measurement of \<open>10\<close> per
  parameter; Supabase answers every PATCH with 204.
\<close>

definition poland_down_world :: world where
  "poland_down_world =
     \<lparr>getenv = secrets,
      http_get = (\<lambda>c p. if c = ''POL'' then Inl RequestException
                           else Inr (ok_response [Some (JNumber 10)])),
      http_patch = (\<lambda>url r d. Inr (patch_response 204 [])),
      utcnow = ''2024-01-01T00:00:00''\<rparr>"

text \<open>No environment variable is set; every request would raise.\<close>

definition unconfigured_world :: world where
  "unconfigured_world =
     \<lparr>getenv = (\<lambda>name. None),
      http_get = (\<lambda>c p. Inl RequestException),
      http_patch = (\<lambda>url r d. Inl RequestException),
      utcnow = ''2024-01-01T00:00:00''\<rparr>"

text \<open>The secrets are set; every request raises.\<close>

definition offline_world :: world where
  "offline_world =
     \<lparr>getenv = secrets,
      http_get = (\<lambda>c p. Inl RequestException),
      http_patch = (\<lambda>url r d. Inl RequestException),
      utcnow = ''2024-01-01T00:00:00''\<rparr>"


section \<open>Properties\<close>

lemmas io_defs = print_def send_def init_io_def

lemmas fetch_defs = fetch_country_air_quality_def fetch_average_def fetch_parameter_data_def
  raise_for_status_def ok_response_def

lemmas average_defs = calculate_average_def trimmed_def trim_count_def py_sorted_def
  py_slice_def slice_bound_def py_truediv_def

lemmas update_defs = update_supabase_def update_data_def patch_response_def
  py_round_def round_half_even_def

lemmas loop_defs = run_etl_def run_country_def try_country_def truthy_def country_name_def
  COUNTRIES_def

subsection \<open>The aggregator\<close>

lemma length_py_sorted: "length (py_sorted values) = length values"
  by (simp add: py_sorted_def)

lemma trim_count_eq: "trim_count values = max 1 (length values div 20)"
  by (simp add: trim_count_def length_py_sorted)

lemma twice_trim_count_less: "10 < length values \<Longrightarrow> 2 * trim_count values < length values"
proof -
  assume "10 < length values"
  moreover have "20 * (length values div 20) \<le> length values"
    by simp
  ultimately have "2 * max 1 (length values div 20) < length values"
    by (cases "length values div 20 = 0") (simp_all add: max_def)
  then show ?thesis by (simp only: trim_count_eq)
qed

lemma py_slice_trim:
  "0 < k \<Longrightarrow> py_slice xs (int k) (- int k) = drop k (take (length xs - k) xs)"
  by (auto simp add: py_slice_def slice_bound_def Let_def max_def nat_diff_distrib' intro: arg_cong)

lemma trimmed_small: "length values \<le> 10 \<Longrightarrow> trimmed values = sort values"
  by (simp add: trimmed_def length_py_sorted py_sorted_def)

lemma trimmed_large:
  "10 < length values \<Longrightarrow>
   trimmed values = drop (trim_count values) (take (length values - trim_count values) (sort values))"
  by (simp add: trimmed_def length_py_sorted py_slice_trim trim_count_eq) (simp add: py_sorted_def)

lemma length_trimmed:
  "length (trimmed values) =
     (if 10 < length values then length values - 2 * trim_count values else length values)"
  by (simp add: trimmed_small trimmed_large mult_2)

lemma trimmed_nonempty: "values \<noteq> [] \<Longrightarrow> trimmed values \<noteq> []"
proof -
  assume ne: "values \<noteq> []"
  have "0 < length (trimmed values)"
  proof (cases "10 < length values")
    case True
    then show ?thesis using twice_trim_count_less [OF True] by (simp add: length_trimmed)
  next
    case False
    then show ?thesis using ne by (simp add: length_trimmed)
  qed
  then show ?thesis by simp
qed

lemma calculate_average_nonempty:
  "values \<noteq> [] \<Longrightarrow>
   calculate_average values = Inr (Some (sum_list (trimmed values) / real (length (trimmed values))))"
  by (simp add: calculate_average_def trimmed_nonempty py_truediv_def)

lemma sort_split_trim:
  assumes "10 < length values"
  shows "sort values = take (trim_count values) (sort values) @ trimmed values
           @ drop (length values - trim_count values) (sort values)"
proof -
  let ?k = "trim_count values" and ?s = "sort values"
  have "?s = take (length values - ?k) ?s @ drop (length values - ?k) ?s" by simp
  also have "take (length values - ?k) ?s =
      take ?k (take (length values - ?k) ?s) @ drop ?k (take (length values - ?k) ?s)"
    by (simp only: append_take_drop_id)
  also have "take ?k (take (length values - ?k) ?s) = take ?k ?s"
  proof -
    have "?k \<le> length values - ?k" using twice_trim_count_less [OF assms] by arith
    then show ?thesis by (simp add: min_def)
  qed
  finally show ?thesis using assms by (simp add: trimmed_large)
qed

lemma sum_list_sort: "sum_list (sort values) = sum_list (values :: real list)"
proof -
  have "sum_mset (mset (sort values)) = sum_mset (mset values)" by simp
  then show ?thesis by (simp only: sum_mset_sum_list)
qed





text \<open>
  Claim C6. For a non-empty list of at most ten values \<open>_calculate_average\<close> returns the
  plain arithmetic mean of all the values: nothing is removed, \<open>trimmed\<close> is a
  rearrangement of the input.
\<close>

theorem untrimmed_mean_up_to_ten:
  assumes "values \<noteq> []" and "length values \<le> 10"
  shows "calculate_average values = Inr (Some (sum_list values / real (length values)))
         \<and> mset (trimmed values) = mset values"
  using assms by (simp add: calculate_average_nonempty trimmed_small sum_list_sort)

theorem untrimmed_mean_up_to_ten_witness:
  "[4, 1, 7 :: real] \<noteq> [] \<and> length [4, 1, 7 :: real] \<le> 10
   \<and> calculate_average [4, 1, 7] = Inr (Some 4)"
  using untrimmed_mean_up_to_ten [of "[4, 1, 7]"] by simp

text \<open>
  Claim C3. For a list of \<open>n > 10\<close> values the ascending rearrangement of the input
  splits into \<open>lo\<close>, \<open>mid\<close> and \<open>hi\<close> with \<open>lo\<close> and \<open>hi\<close> of length
  \<open>max 1 (n div 20)\<close> each, and \<open>_calculate_average\<close> returns the arithmetic mean of
  \<open>mid\<close>. For \<open>[1, ..., 11]\<close> one value goes at each end and the result is 6.
\<close>

theorem trimmed_mean_above_ten:
  assumes "10 < length values"
  shows "(\<exists>lo mid hi. sort values = lo @ mid @ hi
            \<and> sorted (lo @ mid @ hi) \<and> mset (lo @ mid @ hi) = mset values
            \<and> length lo = max 1 (length values div 20)
            \<and> length hi = max 1 (length values div 20)
            \<and> mid \<noteq> []
            \<and> calculate_average values = Inr (Some (sum_list mid / real (length mid))))
         \<and> calculate_average [1, 2, 3, 4, 5, 6, 7, 8, 9, 10, 11] = Inr (Some 6)"
proof
  let ?k = "trim_count values"
  have ne: "values \<noteq> []" using assms by auto
  have k: "?k = max 1 (length values div 20)" by (rule trim_count_eq)
  have lt: "2 * ?k < length values" by (rule twice_trim_count_less [OF assms])
  have split: "sort values = take ?k (sort values) @ trimmed values
          @ drop (length values - ?k) (sort values)"
    by (rule sort_split_trim [OF assms])
  have "sorted (sort values)" and "mset (sort values) = mset values" by simp_all
  then have "sorted (take ?k (sort values) @ trimmed values @ drop (length values - ?k) (sort values))"
    and "mset (take ?k (sort values) @ trimmed values @ drop (length values - ?k) (sort values))
           = mset values"
    by (simp_all only: split [symmetric])
  moreover have "length (take ?k (sort values)) = max 1 (length values div 20)"
    using lt k by simp
  moreover have "length (drop (length values - ?k) (sort values)) = max 1 (length values div 20)"
    using lt k by simp
  moreover have "trimmed values \<noteq> []" by (rule trimmed_nonempty [OF ne])
  moreover have "calculate_average values
      = Inr (Some (sum_list (trimmed values) / real (length (trimmed values))))"
    by (rule calculate_average_nonempty [OF ne])
  ultimately show "\<exists>lo mid hi. sort values = lo @ mid @ hi
            \<and> sorted (lo @ mid @ hi) \<and> mset (lo @ mid @ hi) = mset values
            \<and> length lo = max 1 (length values div 20)
            \<and> length hi = max 1 (length values div 20)
            \<and> mid \<noteq> []
            \<and> calculate_average values = Inr (Some (sum_list mid / real (length mid)))"
    using split by blast
next
  show "calculate_average [1, 2, 3, 4, 5, 6, 7, 8, 9, 10, 11] = Inr (Some 6)"
    by (simp add: average_defs)
qed

theorem trimmed_mean_above_ten_witness:
  "10 < length [30, 2, 9, 4, 5, 6, 7, 8, 3, 10, 0, 12 :: real]
   \<and> calculate_average [30, 2, 9, 4, 5, 6, 7, 8, 3, 10, 0, 12] = Inr (Some (33 / 5))"
proof -
  have h: "10 < length [30, 2, 9, 4, 5, 6, 7, 8, 3, 10, 0, 12 :: real]" by simp
  obtain lo mid hi where d: "sort [30, 2, 9, 4, 5, 6, 7, 8, 3, 10, 0, 12 :: real] = lo @ mid @ hi"
    and lo: "length lo = max 1 (length [30, 2, 9, 4, 5, 6, 7, 8, 3, 10, 0, 12 :: real] div 20)"
    and hi: "length hi = max 1 (length [30, 2, 9, 4, 5, 6, 7, 8, 3, 10, 0, 12 :: real] div 20)"
    and avg: "calculate_average [30, 2, 9, 4, 5, 6, 7, 8, 3, 10, 0, 12]
                = Inr (Some (sum_list mid / real (length mid)))"
    using trimmed_mean_above_ten [OF h] by blast
  have s: "sort [30, 2, 9, 4, 5, 6, 7, 8, 3, 10, 0, 12 :: real]
             = [0, 2, 3, 4, 5, 6, 7, 8, 9, 10, 12, 30]" by simp
  from lo have "length lo = 1" by simp
  then obtain a where a: "lo = [a]" by (cases lo) auto
  from hi have "length hi = 1" by simp
  then obtain b where b: "hi = [b]" by (cases hi) auto
  from d s a b have "[a] @ mid @ [b] = [0, 2, 3, 4, 5, 6, 7, 8, 9, 10, 12, 30]" by simp
  then have "mid @ [b] = [2, 3, 4, 5, 6, 7, 8, 9, 10, 12] @ [30]" by simp
  then have "mid = [2, 3, 4, 5, 6, 7, 8, 9, 10, 12]" by (simp only: append1_eq_conv)
  with avg h show ?thesis by simp
qed

text \<open>
  Claim C7. \<open>_calculate_average\<close> returns a value on every list and never raises (in
  particular no \<open>ZeroDivisionError\<close>): it returns \<open>None\<close> on the empty list, and
  \<open>None\<close> whenever \<open>trimmed\<close> is empty.
\<close>

theorem calculate_average_total:
  "(\<exists>r. calculate_average values = Inr r)
   \<and> calculate_average [] = Inr None
   \<and> (trimmed values = [] \<longrightarrow> calculate_average values = Inr None)"
  by (simp add: calculate_average_def py_truediv_def)

theorem calculate_average_total_witness:
  "trimmed [] = [] \<and> calculate_average [] = Inr None
   \<and> (\<exists>r. calculate_average [0, 0] = Inr r)"
  using calculate_average_total [of "[]"] calculate_average_total [of "[0, 0]"]
  by (simp add: trimmed_def py_sorted_def)

text \<open>
  Claim C10. On every non-empty list \<open>_calculate_average\<close> returns a non-null value,
  the mean of \<open>trimmed\<close>; it returns \<open>None\<close> exactly on the empty list. For
  \<open>n > 10\<close> twice the trim count is below \<open>n\<close>, so \<open>trimmed\<close> is non-empty for every
  non-empty input and the \<open>None\<close> branch after the trimming is never taken.
\<close>

theorem null_average_iff_empty:
  "(values \<noteq> [] \<longrightarrow>
      (\<exists>x. calculate_average values = Inr (Some x))
      \<and> calculate_average values
          = Inr (Some (sum_list (trimmed values) / real (length (trimmed values)))))
   \<and> (calculate_average values = Inr None \<longleftrightarrow> values = [])
   \<and> (values \<noteq> [] \<longrightarrow> trimmed values \<noteq> [])
   \<and> (10 < length values \<longrightarrow> 2 * max 1 (length values div 20) < length values)"
proof (intro conjI impI)
  show "\<exists>x. calculate_average values = Inr (Some x)" if "values \<noteq> []"
    using calculate_average_nonempty [OF that] by blast
  show "calculate_average values
          = Inr (Some (sum_list (trimmed values) / real (length (trimmed values))))"
    if "values \<noteq> []" using that by (rule calculate_average_nonempty)
  show "calculate_average values = Inr None \<longleftrightarrow> values = []"
    by (cases "values = []") (simp_all add: calculate_average_nonempty, simp add: calculate_average_def)
  show "trimmed values \<noteq> []" if "values \<noteq> []" using that by (rule trimmed_nonempty)
  show "2 * max 1 (length values div 20) < length values" if "10 < length values"
    using twice_trim_count_less [OF that] by (simp only: trim_count_eq)
qed

theorem null_average_iff_empty_witness:
  "[0 :: real] \<noteq> [] \<and> calculate_average [0] = Inr (Some 0) \<and> trimmed [0] \<noteq> []
   \<and> 10 < length [1, 2, 3, 4, 5, 6, 7, 8, 9, 10, 11 :: real]
   \<and> (\<exists>x. calculate_average [1, 2, 3, 4, 5, 6, 7, 8, 9, 10, 11] = Inr (Some x))"
  using null_average_iff_empty [of "[0]"]
    null_average_iff_empty [of "[1, 2, 3, 4, 5, 6, 7, 8, 9, 10, 11]"]
  by (simp add: trimmed_def py_sorted_def)

subsection \<open>The orchestrator\<close>

lemma fetch_average_raises:
  "fst (fetch_parameter_data w c p st) = Inl e \<Longrightarrow> fst (fetch_average w c p st) = None"
  by (cases "fetch_parameter_data w c p st") (simp add: fetch_average_def)


lemma fst_fetch_country_air_quality:
  "fst (fetch_country_air_quality w c st) =
     \<lparr>avg_pm25 = fst (fetch_average w c ''pm25'' st),
      avg_no2 = fst (fetch_average w c ''no2'' (snd (fetch_average w c ''pm25'' st))),
      measurement_count = 0\<rparr>"
  by (simp add: fetch_country_air_quality_def split: prod.splits)



lemma try_country_no_data:
  assumes "\<not> truthy (avg_pm25 (fst (fetch_country_air_quality w c st)))"
    and "\<not> truthy (avg_no2 (fst (fetch_country_air_quality w c st)))"
  shows "try_country self w c st =
           (Inr False, print (No_data_available c) (snd (fetch_country_air_quality w c st)))"
  using assms by (cases "fetch_country_air_quality w c st") (simp add: try_country_def)

lemma try_country_fetch_raises:
  assumes "\<forall>p st'. \<exists>e. fst (fetch_parameter_data w c p st') = Inl e"
  shows "fst (try_country self w c st) = Inr False"
proof -
  have none: "fst (fetch_average w c p st') = None" for p st'
    using assms fetch_average_raises by blast
  have "\<not> truthy (avg_pm25 (fst (fetch_country_air_quality w c st)))"
    and "\<not> truthy (avg_no2 (fst (fetch_country_air_quality w c st)))"
    by (simp_all add: fst_fetch_country_air_quality none truthy_def)
  then show ?thesis by (simp add: try_country_no_data)
qed

lemma run_country_ok:
  "fst (try_country self w c (print (Processing c (country_name c)) st)) = Inr True \<Longrightarrow>
   fst (run_country self w (t, st) c) = t\<lparr>successful := successful t + 1\<rparr>"
  by (cases "try_country self w c (print (Processing c (country_name c)) st)")
     (simp add: run_country_def)

lemma run_country_not_ok:
  "fst (try_country self w c (print (Processing c (country_name c)) st)) \<noteq> Inr True \<Longrightarrow>
   fst (run_country self w (t, st) c) = t\<lparr>failed := failed t + 1\<rparr>"
  by (cases "try_country self w c (print (Processing c (country_name c)) st)")
     (auto simp add: run_country_def split: sum.splits)

lemma run_country_counts_one:
  "successful (fst (run_country self w (t, st) c)) + failed (fst (run_country self w (t, st) c))
     = successful t + failed t + 1"
  by (cases "fst (try_country self w c (print (Processing c (country_name c)) st)) = Inr True")
     (simp_all add: run_country_ok run_country_not_ok)

lemma foldl_run_country_counts:
  "successful (fst (foldl (run_country self w) (t, st) cs))
     + failed (fst (foldl (run_country self w) (t, st) cs))
   = successful t + failed t + length cs"
proof (induction cs arbitrary: t st)
  case Nil
  then show ?case by simp
next
  case (Cons c cs)
  obtain t' st' where step: "run_country self w (t, st) c = (t', st')"
    by (cases "run_country self w (t, st) c")
  have "successful t' + failed t' = successful t + failed t + 1"
    using run_country_counts_one [of self w t st c] by (simp add: step)
  then show ?case using Cons.IH [of t' st'] by (simp add: step)
qed

lemma foldl_run_country_all_ok:
  assumes "\<forall>c\<in>set cs. \<forall>st'. fst (try_country self w c st') = Inr True"
  shows "fst (foldl (run_country self w) (t, st) cs) = t\<lparr>successful := successful t + length cs\<rparr>"
  using assms
proof (induction cs arbitrary: t st)
  case Nil
  then show ?case by simp
next
  case (Cons c cs)
  obtain t' st' where step: "run_country self w (t, st) c = (t', st')"
    by (cases "run_country self w (t, st) c")
  have "t' = t\<lparr>successful := successful t + 1\<rparr>"
    using run_country_ok [of self w c st t] Cons.prems by (simp add: step)
  moreover have "fst (foldl (run_country self w) (t', st') cs)
      = t'\<lparr>successful := successful t' + length cs\<rparr>"
    using Cons.IH [of t' st'] Cons.prems by simp
  ultimately show ?case by (simp add: step)
qed

lemma fst_run_etl:
  "fst (run_etl self w (Some cs) st)
     = fst (foldl (run_country self w) (\<lparr>successful = 0, failed = 0\<rparr>, print Banner st) cs)"
  by (simp add: run_etl_def split: prod.splits)

text \<open>
  Claim C4. Let every call of \<open>_fetch_parameter_data\<close> for the country \<open>c\<close> raise,
  and let the \<open>try\<close> body of every other country of the list end in the branch that
  counts it as successful. Then the summary of \<open>run_etl\<close> has \<open>failed = 1\<close> and
  \<open>successful\<close> = (number of countries - 1). Whatever the world does, \<open>run_etl\<close>
  returns its summary with every country of the list counted once, and an exception
  raised in the \<open>try\<close> body of a country adds one to \<open>failed\<close>.
\<close>

theorem country_isolation:
  assumes "\<forall>p st'. \<exists>e. fst (fetch_parameter_data w c p st') = Inl e"
    and "\<forall>c'\<in>set pre \<union> set post. \<forall>st'. fst (try_country self w c' st') = Inr True"
  shows "fst (run_etl self w (Some (pre @ c # post)) st)
           = \<lparr>successful = length (pre @ c # post) - 1, failed = 1\<rparr>
         \<and> (\<forall>w' cs. successful (fst (run_etl self w' (Some cs) st))
                      + failed (fst (run_etl self w' (Some cs) st)) = length cs)
         \<and> (\<forall>w' c' t e.
               fst (try_country self w' c' (print (Processing c' (country_name c')) st)) = Inl e
               \<longrightarrow> fst (run_country self w' (t, st) c') = t\<lparr>failed := failed t + 1\<rparr>)"
proof (intro conjI allI impI)
  let ?t0 = "\<lparr>successful = 0, failed = 0\<rparr>"
  obtain t1 st1 where pre: "foldl (run_country self w) (?t0, print Banner st) pre = (t1, st1)"
    by (cases "foldl (run_country self w) (?t0, print Banner st) pre")
  have t1: "t1 = \<lparr>successful = length pre, failed = 0\<rparr>"
    using foldl_run_country_all_ok [of pre self w ?t0 "print Banner st"] assms(2)
    by (simp add: pre)
  obtain t2 st2 where mid: "run_country self w (t1, st1) c = (t2, st2)"
    by (cases "run_country self w (t1, st1) c")
  have "fst (try_country self w c (print (Processing c (country_name c)) st1)) \<noteq> Inr True"
    by (simp add: try_country_fetch_raises [OF assms(1)])
  then have t2: "t2 = t1\<lparr>failed := failed t1 + 1\<rparr>"
    using run_country_not_ok [of self w c st1 t1] by (simp add: mid)
  have "fst (foldl (run_country self w) (t2, st2) post)
      = t2\<lparr>successful := successful t2 + length post\<rparr>"
    using foldl_run_country_all_ok [of post self w t2 st2] assms(2) by simp
  then show "fst (run_etl self w (Some (pre @ c # post)) st)
           = \<lparr>successful = length (pre @ c # post) - 1, failed = 1\<rparr>"
    by (simp add: fst_run_etl pre mid) (simp add: t1 t2)
next
  fix w' cs
  show "successful (fst (run_etl self w' (Some cs) st))
          + failed (fst (run_etl self w' (Some cs) st)) = length cs"
    using foldl_run_country_counts [of self w' "\<lparr>successful = 0, failed = 0\<rparr>" "print Banner st" cs]
    by (simp add: fst_run_etl)
next
  fix w' c' t e
  assume "fst (try_country self w' c' (print (Processing c' (country_name c')) st)) = Inl e"
  then show "fst (run_country self w' (t, st) c') = t\<lparr>failed := failed t + 1\<rparr>"
    by (simp add: run_country_not_ok)
qed

theorem country_isolation_witness:
  "(\<forall>p st'. fst (fetch_parameter_data poland_down_world ''POL'' p st') = Inl RequestException)
   \<and> (\<forall>st'. fst (try_country example_etl poland_down_world ''DEU'' st') = Inr True)
   \<and> (\<forall>st'. fst (try_country example_etl poland_down_world ''FRA'' st') = Inr True)
   \<and> fst (run_etl example_etl poland_down_world (Some [''DEU'', ''POL'', ''FRA'']) init_io)
       = \<lparr>successful = 2, failed = 1\<rparr>"
proof -
  have h1: "\<forall>p st'. fst (fetch_parameter_data poland_down_world ''POL'' p st') = Inl RequestException"
    by (simp add: poland_down_world_def fetch_defs)
  have h2: "\<forall>st'. fst (try_country example_etl poland_down_world ''DEU'' st') = Inr True"
    by (simp add: poland_down_world_def loop_defs fetch_defs average_defs update_defs)
  have h3: "\<forall>st'. fst (try_country example_etl poland_down_world ''FRA'' st') = Inr True"
    by (simp add: poland_down_world_def loop_defs fetch_defs average_defs update_defs)
  have a1: "\<forall>p st'. \<exists>e. fst (fetch_parameter_data poland_down_world ''POL'' p st') = Inl e"
    using h1 by blast
  have a2: "\<forall>c'\<in>set [''DEU''] \<union> set [''FRA'']. \<forall>st'.
              fst (try_country example_etl poland_down_world c' st') = Inr True"
    using h2 h3 by simp
  from country_isolation [OF a1 a2, of init_io] h1 h2 h3 show ?thesis by simp
qed

text \<open>
  Claim C1, at the input on which the code departs from it: OpenAQ reports the single
  PM2.5 measurement \<open>0.0\<close> for DEU and no NO2 measurement. The aggregate has the
  non-null average \<open>avg_pm25 = 0.0\<close>, yet \<open>run_etl\<close> sends no PATCH (the two GET
  requests are all its traffic) and counts the country as failed.
\<close>

theorem zero_average_counted_failed:
  "fst (fetch_country_air_quality zero_world ''DEU''
          (print (Processing ''DEU'' ''Germany'') (print Banner init_io)))
     = \<lparr>avg_pm25 = Some 0, avg_no2 = None, measurement_count = 0\<rparr>
   \<and> fst (run_etl example_etl zero_world (Some [''DEU'']) init_io)
       = \<lparr>successful = 0, failed = 1\<rparr>
   \<and> net (snd (run_etl example_etl zero_world (Some [''DEU'']) init_io))
       = [GET ''DEU'' ''pm25'', GET ''DEU'' ''no2'']"
  by (simp add: zero_world_def loop_defs fetch_defs average_defs io_defs)

subsection \<open>The updater\<close>

lemma truthy_not_None: "truthy v \<Longrightarrow> v \<noteq> None"
  by (cases v) (simp_all add: truthy_def)

lemma update_data_cases:
  "update_data a =
     (case (avg_pm25 a, avg_no2 a) of
        (None, None) \<Rightarrow> []
      | (Some x, None) \<Rightarrow> [(''air_quality_pm25'', Number (py_round x 2))]
      | (None, Some y) \<Rightarrow> [(''air_quality_no2'', Number (py_round y 2))]
      | (Some x, Some y) \<Rightarrow> [(''air_quality_pm25'', Number (py_round x 2)),
                              (''air_quality_no2'', Number (py_round y 2))])"
  by (simp add: update_data_def split: option.splits)

lemma update_data_nonempty: "avg_pm25 a \<noteq> None \<or> avg_no2 a \<noteq> None \<Longrightarrow> update_data a \<noteq> []"
  by (auto simp: update_data_cases split: option.splits)

lemma add_timestamp:
  "AList.update ''last_updated'' v (update_data a) = update_data a @ [(''last_updated'', v)]"
  by (simp add: update_data_cases split: option.splits)

lemma net_update_supabase:
  assumes "update_data a \<noteq> []"
  shows "net (snd (update_supabase self w region a st))
     = net st @ [PATCH (supabase_url self @ ''/rest/v1/climate_inequality_regions'') region
                   (update_data a @ [(''last_updated'', Text (utcnow w))])]"
  using assms
  by (simp add: update_supabase_def Let_def add_timestamp send_def print_def split: sum.splits)

lemma update_supabase_rejected:
  assumes "avg_pm25 a \<noteq> None \<or> avg_no2 a \<noteq> None"
    and "\<forall>url d. http_patch w url c d = Inr resp"
    and "status_code resp \<noteq> 200" "status_code resp \<noteq> 201" "status_code resp \<noteq> 204"
  shows "fst (update_supabase self w c a st) = Inr ()
         \<and> last (console (snd (update_supabase self w c a st)))
             = Update_failed c (status_code resp) (text_of resp)"
  using assms(2-) update_data_nonempty [OF assms(1)]
  by (simp add: update_supabase_def Let_def print_def send_def)

lemma round_half_even_close: "\<bar>of_int (round_half_even y) - y\<bar> \<le> 1 / 2"
proof -
  have "of_int \<lfloor>y\<rfloor> \<le> y" and "y < of_int \<lfloor>y\<rfloor> + 1" by linarith+
  then show ?thesis by (auto simp add: round_half_even_def Let_def)
qed

lemma py_round_two_places:
  "\<exists>k::int. py_round x 2 = of_int k / 100 \<and> \<bar>py_round x 2 - x\<bar> \<le> 1 / 200"
proof -
  let ?k = "round_half_even (x * 10 ^ 2)"
  have eq: "py_round x 2 = of_int ?k / 100" by (simp add: py_round_def)
  have "\<bar>of_int ?k - x * 100\<bar> \<le> 1 / 2" using round_half_even_close [of "x * 10 ^ 2"] by simp
  then have "\<bar>of_int ?k / 100 - x\<bar> \<le> 1 / 200" by (simp add: abs_le_iff field_simps)
  then have "\<bar>py_round x 2 - x\<bar> \<le> 1 / 200" by (simp only: eq)
  with eq show ?thesis by blast
qed

text \<open>
  Claim C2 fails as stated: Supabase answers the PATCH for DEU with 500, and the summary
  of \<open>run_etl\<close> has DEU as successful, not as failed.
\<close>

theorem rejected_update_counterexample:
  "fst (run_etl example_etl rejecting_world (Some [''DEU'']) init_io)
     = \<lparr>successful = 1, failed = 0\<rparr>
   \<and> http_patch rejecting_world ''https://db.example/rest/v1/climate_inequality_regions'' ''DEU''
        [(''air_quality_pm25'', Number 10), (''air_quality_no2'', Number 10),
         (''last_updated'', Text ''2024-01-01T00:00:00'')]
       = Inr (patch_response 500 ''Internal Server Error'')
   \<and> net (snd (run_etl example_etl rejecting_world (Some [''DEU'']) init_io))
       = [GET ''DEU'' ''pm25'', GET ''DEU'' ''no2'',
          PATCH ''https://db.example/rest/v1/climate_inequality_regions'' ''DEU''
            [(''air_quality_pm25'', Number 10), (''air_quality_no2'', Number 10),
             (''last_updated'', Text ''2024-01-01T00:00:00'')]]"
  by (simp add: rejecting_world_def example_etl_def loop_defs fetch_defs average_defs io_defs
      update_defs)

text \<open>
  Claim C2, amended. When the destination API answers the partial update for a country
  with a status other than 200, 201 and 204, \<open>update_supabase\<close> prints the failure with
  the status code and the response body and returns normally, and the iteration of
  \<open>run_etl\<close> for that country adds one to \<open>successful\<close>; a batch of that country alone
  ends with the summary 1 successful, 0 failed.
\<close>

theorem rejected_update_counted_successful:
  assumes "\<forall>st'. truthy (avg_pm25 (fst (fetch_country_air_quality w c st')))
                \<or> truthy (avg_no2 (fst (fetch_country_air_quality w c st')))"
    and "\<forall>url d. http_patch w url c d = Inr resp"
    and "status_code resp \<noteq> 200" and "status_code resp \<noteq> 201" and "status_code resp \<noteq> 204"
  shows "fst (run_country self w (t, st) c) = t\<lparr>successful := successful t + 1\<rparr>
         \<and> last (console (snd (run_country self w (t, st) c)))
             = Update_failed c (status_code resp) (text_of resp)
         \<and> fst (run_etl self w (Some [c]) st) = \<lparr>successful = 1, failed = 0\<rparr>"
proof -
  have step: "fst (run_country self w (t', st') c) = t'\<lparr>successful := successful t' + 1\<rparr>
      \<and> last (console (snd (run_country self w (t', st') c)))
             = Update_failed c (status_code resp) (text_of resp)" for t' st'
  proof -
    let ?st0 = "print (Processing c (country_name c)) st'"
    obtain a st1 where f: "fetch_country_air_quality w c ?st0 = (a, st1)"
      by (cases "fetch_country_air_quality w c ?st0")
    have tr: "truthy (avg_pm25 a) \<or> truthy (avg_no2 a)"
      using assms(1) [rule_format, of ?st0] by (simp add: f)
    then have "avg_pm25 a \<noteq> None \<or> avg_no2 a \<noteq> None"
      using truthy_not_None by blast
    then have u: "fst (update_supabase self w c a st1) = Inr ()
         \<and> last (console (snd (update_supabase self w c a st1)))
             = Update_failed c (status_code resp) (text_of resp)"
      using assms(2-) by (rule update_supabase_rejected)
    obtain r st2 where us: "update_supabase self w c a st1 = (r, st2)"
      by (cases "update_supabase self w c a st1")
    have "try_country self w c ?st0 = (Inr True, st2)"
      using tr u by (auto simp add: try_country_def f us)
    then show ?thesis using u by (simp add: run_country_def us)
  qed
  from step [of t st] step [of "\<lparr>successful = 0, failed = 0\<rparr>" "print Banner st"]
  show ?thesis by (simp add: fst_run_etl)
qed

theorem rejected_update_counted_successful_witness:
  "(\<forall>st'. truthy (avg_pm25 (fst (fetch_country_air_quality rejecting_world ''DEU'' st'))))
   \<and> (\<forall>url d. http_patch rejecting_world url ''DEU'' d
                 = Inr (patch_response 500 ''Internal Server Error''))
   \<and> status_code (patch_response 500 ''Internal Server Error'') = 500
   \<and> fst (run_country example_etl rejecting_world (\<lparr>successful = 3, failed = 4\<rparr>, init_io) ''DEU'')
       = \<lparr>successful = 4, failed = 4\<rparr>
   \<and> last (console (snd (run_country example_etl rejecting_world
                             (\<lparr>successful = 3, failed = 4\<rparr>, init_io) ''DEU'')))
       = Update_failed ''DEU'' 500 ''Internal Server Error''"
proof -
  have h1: "\<forall>st'. truthy (avg_pm25 (fst (fetch_country_air_quality rejecting_world ''DEU'' st')))"
    by (simp add: rejecting_world_def truthy_def fetch_defs average_defs io_defs)
  then have h1': "\<forall>st'. truthy (avg_pm25 (fst (fetch_country_air_quality rejecting_world ''DEU'' st')))
                \<or> truthy (avg_no2 (fst (fetch_country_air_quality rejecting_world ''DEU'' st')))"
    by simp
  have h2: "\<forall>url d. http_patch rejecting_world url ''DEU'' d
                 = Inr (patch_response 500 ''Internal Server Error'')"
    by (simp add: rejecting_world_def)
  have h3: "status_code (patch_response 500 ''Internal Server Error'') = 500"
    by (simp add: patch_response_def)
  from rejected_update_counted_successful
         [OF h1' h2, of example_etl "\<lparr>successful = 3, failed = 4\<rparr>" init_io] h1 h2 h3
  show ?thesis by (simp add: patch_response_def)
qed

text \<open>
  Claim C5. For an aggregate with at least one non-null average \<open>update_supabase\<close> sends
  one PATCH whose body has exactly the keys of the non-null averages and
  \<open>last_updated\<close>, each key once; an average \<open>x\<close> is sent as \<open>round(x, 2)\<close>, a
  multiple of 0.01 at distance at most 0.005 from \<open>x\<close>, and \<open>last_updated\<close> holds the
  timestamp. (A tie of the rounding needs an \<open>x\<close> with exactly three decimals ending
  in 5, which no binary float is.)
\<close>

theorem update_payload_fields:
  assumes "avg_pm25 a \<noteq> None \<or> avg_no2 a \<noteq> None"
  shows "\<exists>d. net (snd (update_supabase self w region a st))
               = net st @ [PATCH (supabase_url self @ ''/rest/v1/climate_inequality_regions'') region d]
     \<and> distinct (map fst d)
     \<and> set (map fst d) = {k. k = ''air_quality_pm25'' \<and> avg_pm25 a \<noteq> None}
                          \<union> {k. k = ''air_quality_no2'' \<and> avg_no2 a \<noteq> None}
                          \<union> {''last_updated''}
     \<and> map_of d ''air_quality_pm25'' = map_option (\<lambda>x. Number (py_round x 2)) (avg_pm25 a)
     \<and> map_of d ''air_quality_no2'' = map_option (\<lambda>x. Number (py_round x 2)) (avg_no2 a)
     \<and> map_of d ''last_updated'' = Some (Text (utcnow w))
     \<and> (\<forall>x. \<exists>k::int. py_round x 2 = of_int k / 100 \<and> \<bar>py_round x 2 - x\<bar> \<le> 1 / 200)"
proof -
  let ?d = "update_data a @ [(''last_updated'', Text (utcnow w))]"
  have "net (snd (update_supabase self w region a st))
          = net st @ [PATCH (supabase_url self @ ''/rest/v1/climate_inequality_regions'') region ?d]"
    by (rule net_update_supabase [OF update_data_nonempty [OF assms]])
  moreover have "distinct (map fst ?d)"
    by (simp add: update_data_cases split: option.splits)
  moreover have "set (map fst ?d) = {k. k = ''air_quality_pm25'' \<and> avg_pm25 a \<noteq> None}
                          \<union> {k. k = ''air_quality_no2'' \<and> avg_no2 a \<noteq> None}
                          \<union> {''last_updated''}"
    by (cases "avg_pm25 a"; cases "avg_no2 a") (auto simp add: update_data_cases)
  moreover have "map_of ?d ''air_quality_pm25'' = map_option (\<lambda>x. Number (py_round x 2)) (avg_pm25 a)"
    by (simp add: update_data_cases split: option.splits)
  moreover have "map_of ?d ''air_quality_no2'' = map_option (\<lambda>x. Number (py_round x 2)) (avg_no2 a)"
    by (simp add: update_data_cases split: option.splits)
  moreover have "map_of ?d ''last_updated'' = Some (Text (utcnow w))"
    by (simp add: update_data_cases split: option.splits)
  moreover have "\<forall>x. \<exists>k::int. py_round x 2 = of_int k / 100 \<and> \<bar>py_round x 2 - x\<bar> \<le> 1 / 200"
    using py_round_two_places by blast
  ultimately show ?thesis by blast
qed

theorem update_payload_fields_witness:
  "avg_pm25 \<lparr>avg_pm25 = Some 12.3456, avg_no2 = None, measurement_count = 0\<rparr> \<noteq> None
   \<and> net (snd (update_supabase example_etl zero_world ''DEU''
                 \<lparr>avg_pm25 = Some 12.3456, avg_no2 = None, measurement_count = 0\<rparr> init_io))
       = [PATCH ''https://db.example/rest/v1/climate_inequality_regions'' ''DEU''
            [(''air_quality_pm25'', Number 12.35),
             (''last_updated'', Text ''2024-01-01T00:00:00'')]]"
  using update_payload_fields
          [of "\<lparr>avg_pm25 = Some 12.3456, avg_no2 = None, measurement_count = 0\<rparr>"
              example_etl zero_world "''DEU''" init_io]
  by (simp add: update_defs zero_world_def example_etl_def io_defs)

subsection \<open>The aggregate of a country\<close>




subsection \<open>The process\<close>

text \<open>
  Claim C9. When \<open>SUPABASE_URL\<close> or \<open>SUPABASE_SERVICE_KEY\<close> is absent, \<open>main\<close> exits
  with code 1 and has sent no request. When both are set and non-empty, \<open>main\<close> runs
  the batch over all countries and exits with code 0, whatever the batch counted.
\<close>

theorem main_exit_code:
  "(getenv w ''SUPABASE_URL'' = None \<or> getenv w ''SUPABASE_SERVICE_KEY'' = None
      \<longrightarrow> fst (main w) = 1 \<and> net (snd (main w)) = [])
   \<and> (\<forall>url key. getenv w ''SUPABASE_URL'' = Some url \<and> url \<noteq> []
          \<and> getenv w ''SUPABASE_SERVICE_KEY'' = Some key \<and> key \<noteq> []
        \<longrightarrow> main w = (0, snd (run_etl \<lparr>supabase_url = url, supabase_key = key\<rparr> w None init_io)))"
  by (auto simp add: main_def OpenAQETL_init_def falsy_str_def Let_def print_def init_io_def)

theorem main_exit_code_witness:
  "getenv unconfigured_world ''SUPABASE_URL'' = None
   \<and> fst (main unconfigured_world) = 1 \<and> net (snd (main unconfigured_world)) = []
   \<and> getenv offline_world ''SUPABASE_URL'' = Some ''https://db.example''
   \<and> getenv offline_world ''SUPABASE_SERVICE_KEY'' = Some ''service-key''
   \<and> fst (main offline_world) = 0
   \<and> fst (run_etl example_etl offline_world None init_io) = \<lparr>successful = 0, failed = 12\<rparr>"
proof -
  have u: "getenv unconfigured_world ''SUPABASE_URL'' = None"
    by (simp add: unconfigured_world_def)
  have s: "getenv offline_world ''SUPABASE_URL'' = Some ''https://db.example''
     \<and> getenv offline_world ''SUPABASE_SERVICE_KEY'' = Some ''service-key''"
    by (simp add: offline_world_def secrets_def)
  have t: "fst (run_etl example_etl offline_world None init_io) = \<lparr>successful = 0, failed = 12\<rparr>"
    by (simp add: offline_world_def loop_defs fetch_defs io_defs)
  from main_exit_code [of unconfigured_world] main_exit_code [of offline_world] u s t
  show ?thesis by simp
qed

end
